theory Spec2Isabelle
  imports Main "HOL-Library.Word"
begin

section \<open>Data model of the provisioning tool (main.go)\<close>

text \<open>
  A Go \<open>error\<close> value is represented by the text its \<open>Error()\<close> method returns; a
  \<open>nil\<close> error is \<open>None\<close> (or the \<open>Inr\<close> side of a result).
\<close>

type_synonym err = string

text \<open>The anonymous structs nested in \<open>Config\<close>, one record each.\<close>

record ssh_section =
  Username :: string
  Password :: string
  KeyFile :: string
  Timeout :: "64 word"

record kubernetes_section =
  Version :: string
  PodCIDR :: string
  ServiceCIDR :: string

record prometheus_section =
  RetentionTime :: string
  StorageClass :: string

record grafana_section =
  AdminPassword :: string
  Domain :: string

record monitoring_section =
  Prometheus :: prometheus_section
  Grafana :: grafana_section

record resources_section =
  CPU :: string
  Memory :: string

record Config =
  SSHConfig :: ssh_section
  Kubernetes :: kubernetes_section
  Monitoring :: monitoring_section
  Resources :: resources_section

text \<open>\<open>VMConfig\<close>; the timeout is a \<open>time.Duration\<close>, a 64-bit count of nanoseconds.\<close>

record VMConfig =
  IP :: string
  vm_Username :: string
  vm_Password :: string
  vm_KeyFile :: string
  vm_Timeout :: "64 word"

text \<open>
  A \<open>time.Time\<close> is either the zero value of the type or an instant read from the
  clock by \<open>time.Now()\<close>.
\<close>

datatype Time = ZeroTime | At nat

record SetupStatus =
  VMIP :: string
  StartTime :: Time
  EndTime :: Time
  CurrentStep :: string
  Status :: string
  Error :: string
  CompletedSteps :: "string list"

text \<open>The part of \<open>ssh.ClientConfig\<close> that \<open>connectSSH\<close> fills in.\<close>

type_synonym Signer = string

datatype AuthMethod = AuthPassword string | AuthPublicKeys Signer

datatype HostKeyPolicy = InsecureIgnoreHostKey

record ClientConfig =
  User :: string
  Auth :: "AuthMethod list"
  HostKeyCallback :: HostKeyPolicy
  cc_Timeout :: "64 word"

section \<open>The outside world\<close>

text \<open>
  Every call that leaves the process is an event, recorded with its arguments in the
  order in which the program makes it. An \<open>*ssh.Client\<close> is identified by the
  number of \<open>Dial\<close> calls made before its own (\<open>dial_count\<close>), so two
  connections never share a handle.
  \<open>EvPrint\<close> is a line written by the program's own \<open>Logger\<close> (standard output),
  \<open>EvLog\<close> a line written through the package-level \<open>log.Printf\<close>; the timestamp
  prefix of both is left out.
\<close>

type_synonym client = nat

datatype event =
    EvReadFile string
  | EvMkdirAll string nat
  | EvDial string string ClientConfig
  | EvNewSession client
  | EvCombinedOutput client string
  | EvSessionClose client
  | EvClientClose client
  | EvSleep nat
  | EvMarshalIndent SetupStatus
  | EvWriteFile string string nat
  | EvPrint string
  | EvLog string

text \<open>
  What the world answers. An answer may depend on everything that happened before,
  so each effectful operation receives the trace so far. \<open>unmarshal\<close>,
  \<open>parsePrivateKey\<close>, \<open>marshalIndent\<close> and \<open>join\<close> (\<open>filepath.Join\<close>) are pure
  library functions.
\<close>

record env =
  readFile :: "event list \<Rightarrow> string \<Rightarrow> err + string"
  unmarshal :: "string \<Rightarrow> err + Config"
  mkdirAll :: "event list \<Rightarrow> string \<Rightarrow> err option"
  parsePrivateKey :: "string \<Rightarrow> err + Signer"
  dial :: "event list \<Rightarrow> string \<Rightarrow> string \<Rightarrow> ClientConfig \<Rightarrow> err option"
  newSession :: "event list \<Rightarrow> client \<Rightarrow> err option"
  combinedOutput :: "event list \<Rightarrow> client \<Rightarrow> string \<Rightarrow> string \<times> err option"
  marshalIndent :: "SetupStatus \<Rightarrow> err + string"
  writeFile :: "event list \<Rightarrow> string \<Rightarrow> string \<Rightarrow> err option"
  now :: "event list \<Rightarrow> nat"
  join :: "string \<Rightarrow> string \<Rightarrow> string"

text \<open>
  Reading a trace: \<open>observe f\<close> keeps, in order, what \<open>f\<close> picks from each event.
\<close>

definition observe :: "(event \<Rightarrow> 'a list) \<Rightarrow> event list \<Rightarrow> 'a list" where
  "observe f tr = concat (map f tr)"

fun dialed :: "event \<Rightarrow> (string \<times> ClientConfig) list" where
  "dialed (EvDial n a cc) = [(a, cc)]"
| "dialed _ = []"

definition dial_count :: "event list \<Rightarrow> nat" where
  "dial_count tr = length (observe dialed tr)"

section \<open>Configuration and connection\<close>

definition loadConfig :: "env \<Rightarrow> string \<Rightarrow> event list \<Rightarrow> (err + Config) \<times> event list" where
  "loadConfig E path tr =
     (case readFile E tr path of
        Inl e \<Rightarrow> (Inl (''failed to read config file: '' @ e), tr @ [EvReadFile path])
      | Inr data \<Rightarrow>
          (case unmarshal E data of
             Inl e \<Rightarrow> (Inl (''failed to parse config file: '' @ e), tr @ [EvReadFile path])
           | Inr config \<Rightarrow> (Inr config, tr @ [EvReadFile path])))"

definition sshConfig0 :: "VMConfig \<Rightarrow> ClientConfig" where
  "sshConfig0 config =
     \<lparr>User = vm_Username config,
      Auth = [AuthPassword (vm_Password config)],
      HostKeyCallback = InsecureIgnoreHostKey,
      cc_Timeout = vm_Timeout config\<rparr>"

text \<open>\<open>connectSSH\<close> of main.go: the error of \<open>ssh.Dial\<close> is returned as it is.\<close>

definition connectSSH :: "env \<Rightarrow> VMConfig \<Rightarrow> event list \<Rightarrow> (err + client) \<times> event list" where
  "connectSSH E config tr =
     (if vm_KeyFile config \<noteq> [] then
        (case readFile E tr (vm_KeyFile config) of
           Inl e \<Rightarrow> (Inl (''failed to read key file: '' @ e), tr @ [EvReadFile (vm_KeyFile config)])
         | Inr key \<Rightarrow>
             (case parsePrivateKey E key of
                Inl e \<Rightarrow>
                  (Inl (''failed to parse private key: '' @ e), tr @ [EvReadFile (vm_KeyFile config)])
              | Inr signer \<Rightarrow>
                  (let sshConfig = (sshConfig0 config)\<lparr>Auth := [AuthPublicKeys signer]\<rparr>;
                       tr1 = tr @ [EvReadFile (vm_KeyFile config)]
                   in case dial E tr1 ''tcp'' (IP config @ '':22'') sshConfig of
                        Some e \<Rightarrow> (Inl e, tr1 @ [EvDial ''tcp'' (IP config @ '':22'') sshConfig])
                      | None \<Rightarrow>
                          (Inr (dial_count tr1), tr1 @ [EvDial ''tcp'' (IP config @ '':22'') sshConfig]))))
      else
        (let sshConfig = sshConfig0 config
         in case dial E tr ''tcp'' (IP config @ '':22'') sshConfig of
              Some e \<Rightarrow> (Inl e, tr @ [EvDial ''tcp'' (IP config @ '':22'') sshConfig])
            | None \<Rightarrow> (Inr (dial_count tr), tr @ [EvDial ''tcp'' (IP config @ '':22'') sshConfig])))"

text \<open>\<open>Connect\<close> of package ssh: the same, with the dial error wrapped.\<close>

definition Connect :: "env \<Rightarrow> VMConfig \<Rightarrow> event list \<Rightarrow> (err + client) \<times> event list" where
  "Connect E config tr =
     (if vm_KeyFile config \<noteq> [] then
        (case readFile E tr (vm_KeyFile config) of
           Inl e \<Rightarrow> (Inl (''failed to read key file: '' @ e), tr @ [EvReadFile (vm_KeyFile config)])
         | Inr key \<Rightarrow>
             (case parsePrivateKey E key of
                Inl e \<Rightarrow>
                  (Inl (''failed to parse private key: '' @ e), tr @ [EvReadFile (vm_KeyFile config)])
              | Inr signer \<Rightarrow>
                  (let sshConfig = (sshConfig0 config)\<lparr>Auth := [AuthPublicKeys signer]\<rparr>;
                       tr1 = tr @ [EvReadFile (vm_KeyFile config)]
                   in case dial E tr1 ''tcp'' (IP config @ '':22'') sshConfig of
                        Some e \<Rightarrow>
                          (Inl (''failed to dial: '' @ e),
                           tr1 @ [EvDial ''tcp'' (IP config @ '':22'') sshConfig])
                      | None \<Rightarrow>
                          (Inr (dial_count tr1), tr1 @ [EvDial ''tcp'' (IP config @ '':22'') sshConfig]))))
      else
        (let sshConfig = sshConfig0 config
         in case dial E tr ''tcp'' (IP config @ '':22'') sshConfig of
              Some e \<Rightarrow>
                (Inl (''failed to dial: '' @ e), tr @ [EvDial ''tcp'' (IP config @ '':22'') sshConfig])
            | None \<Rightarrow> (Inr (dial_count tr), tr @ [EvDial ''tcp'' (IP config @ '':22'') sshConfig])))"

section \<open>Running commands\<close>

text \<open>
  \<open>executeCommand\<close>: a failure to open the session is returned unwrapped with empty
  output; a failing command keeps its captured output and has its error wrapped. The
  deferred \<open>session.Close()\<close> runs on both paths after the session was opened.
\<close>

definition executeCommand ::
  "env \<Rightarrow> client \<Rightarrow> string \<Rightarrow> event list \<Rightarrow> (string \<times> err option) \<times> event list" where
  "executeCommand E c command tr =
     (case newSession E tr c of
        Some e \<Rightarrow> (([], Some e), tr @ [EvNewSession c])
      | None \<Rightarrow>
          (let tr1 = tr @ [EvNewSession c];
               r = combinedOutput E tr1 c command;
               tr2 = tr1 @ [EvCombinedOutput c command, EvSessionClose c]
           in case snd r of
                Some e \<Rightarrow> ((fst r, Some (''command failed: '' @ e)), tr2)
              | None \<Rightarrow> ((fst r, None), tr2)))"

text \<open>
  The loop \<open>for _, cmd := range commands\<close> that every phase is built from: run the
  command, return the phase's error at the first failure, otherwise do the rest of the
  body (\<open>after\<close>: the events it causes) and go on.
\<close>

fun range_commands ::
  "env \<Rightarrow> client \<Rightarrow> (string \<Rightarrow> err \<Rightarrow> string \<Rightarrow> err) \<Rightarrow> (string \<Rightarrow> string \<Rightarrow> event list) \<Rightarrow>
   string list \<Rightarrow> event list \<Rightarrow> err option \<times> event list" where
  "range_commands E c wrap after [] tr = (None, tr)"
| "range_commands E c wrap after (cmd # cmds) tr =
     (case executeCommand E c cmd tr of
        ((output, Some e), tr1) \<Rightarrow> (Some (wrap cmd e output), tr1)
      | ((output, None), tr1) \<Rightarrow> range_commands E c wrap after cmds (tr1 @ after cmd output))"

section \<open>The phases\<close>

text \<open>
  \<open>log.Printf\<close> in the two read-only phases prints the command and its output.
\<close>

definition checkSystemRequirements :: "env \<Rightarrow> client \<Rightarrow> event list \<Rightarrow> err option \<times> event list" where
  "checkSystemRequirements E c tr =
     range_commands E c
       (\<lambda>cmd e output. ''system check failed: '' @ e)
       (\<lambda>cmd output. [EvLog (''System check output for '' @ cmd @ '':\<newline>'' @ output)])
       [''uname -a'',
        ''free -h'',
        ''df -h'',
        ''nproc'',
        ''cat /etc/os-release'']
       tr"

definition kubernetes_commands :: "Config \<Rightarrow> string list" where
  "kubernetes_commands config =
     [''apt-get update && apt-get upgrade -y'',
      ''apt-get install -y apt-transport-https ca-certificates curl software-properties-common'',
      ''curl -fsSL https://download.docker.com/linux/ubuntu/gpg | apt-key add -'',
      ''add-apt-repository \"deb [arch=amd64] https://download.docker.com/linux/ubuntu $(lsb_release -cs) stable\"'',
      ''apt-get update && apt-get install -y docker-ce docker-ce-cli containerd.io'',
      ''mkdir -p /etc/docker'',
      ''cat > /etc/docker/daemon.json << EOF\<newline>{\<newline>  \"exec-opts\": [\"native.cgroupdriver=systemd\"],\<newline>  \"log-driver\": \"json-file\",\<newline>  \"log-opts\": {\<newline>    \"max-size\": \"100m\"\<newline>  },\<newline>  \"storage-driver\": \"overlay2\"\<newline>}\<newline>EOF'',
      ''systemctl daemon-reload'',
      ''systemctl restart docker'',
      ''curl -s https://packages.cloud.google.com/apt/doc/apt-key.gpg | apt-key add -'',
      ''echo \"deb https://apt.kubernetes.io/ kubernetes-xenial main\" > /etc/apt/sources.list.d/kubernetes.list'',
      ''apt-get update && apt-get install -y kubelet='' @ Version (Kubernetes config) @
        '' kubeadm='' @ Version (Kubernetes config) @ '' kubectl='' @ Version (Kubernetes config),
      ''kubeadm init --pod-network-cidr='' @ PodCIDR (Kubernetes config) @
        '' --service-cidr='' @ ServiceCIDR (Kubernetes config),
      ''mkdir -p $HOME/.kube && cp -i /etc/kubernetes/admin.conf $HOME/.kube/config && chown $(id -u):$(id -g) $HOME/.kube/config'',
      ''kubectl apply -f https://docs.projectcalico.org/manifests/calico.yaml'']"

text \<open>Two seconds of sleep follow every command that succeeded.\<close>

definition setupKubernetes ::
  "env \<Rightarrow> client \<Rightarrow> Config \<Rightarrow> event list \<Rightarrow> err option \<times> event list" where
  "setupKubernetes E c config tr =
     range_commands E c
       (\<lambda>cmd e output.
          ''failed to execute command '' @ [CHR 0x27] @ cmd @ [CHR 0x27] @ '': '' @ e @
          ''\<newline>Output: '' @ output)
       (\<lambda>cmd output. [EvSleep (2 * 1000000000)])
       (kubernetes_commands config)
       tr"

definition prometheusValues :: "Config \<Rightarrow> string" where
  "prometheusValues config =
     ''\<newline>prometheus:\<newline>  prometheusSpec:\<newline>    retention: '' @
     RetentionTime (Prometheus (Monitoring config)) @
     ''\<newline>    storageSpec:\<newline>      volumeClaimTemplate:\<newline>        spec:\<newline>          storageClassName: '' @
     StorageClass (Prometheus (Monitoring config)) @
     ''\<newline>          accessModes: [\"ReadWriteOnce\"]\<newline>          resources:\<newline>            requests:\<newline>              storage: 10Gi\<newline>''"

definition helmCommands :: "string list" where
  "helmCommands =
     [''curl https://raw.githubusercontent.com/helm/helm/master/scripts/get-helm-3 | bash'',
      ''helm repo add prometheus-community https://prometheus-community.github.io/helm-charts'',
      ''helm repo update'']"

definition installCmd :: string where
  "installCmd =
     ''helm install prometheus prometheus-community/kube-prometheus-stack -f prometheus-values.yaml --namespace monitoring''"

definition grafanaCommands :: "Config \<Rightarrow> string list" where
  "grafanaCommands config =
     [''kubectl create secret generic grafana-admin --from-literal=admin-password='' @
        AdminPassword (Grafana (Monitoring config)) @ '' -n monitoring'',
      ''kubectl patch deployment prometheus-grafana -n monitoring --type=json -p='[{\"op\": \"add\", \"path\": \"/spec/template/spec/containers/0/env/0\", \"value\": {\"name\": \"GF_SECURITY_ADMIN_PASSWORD\", \"valueFrom\": {\"secretKeyRef\": {\"name\": \"grafana-admin\", \"key\": \"admin-password\"}}}}]'' @ [CHR 0x27]]"

definition waitCommands :: "string list" where
  "waitCommands =
     [''kubectl wait --for=condition=ready pod -l app.kubernetes.io/name=prometheus -n monitoring --timeout=300s'',
      ''kubectl wait --for=condition=ready pod -l app.kubernetes.io/name=grafana -n monitoring --timeout=300s'']"

text \<open>
  \<open>setupMonitoring\<close>: namespace, Helm, the values file (written on the machine that
  runs the tool, mode 0644), the chart, Grafana, and the wait for the pods.
\<close>

definition setupMonitoring ::
  "env \<Rightarrow> client \<Rightarrow> Config \<Rightarrow> event list \<Rightarrow> err option \<times> event list" where
  "setupMonitoring E c config tr =
     (case executeCommand E c ''kubectl create namespace monitoring'' tr of
        ((output, Some e), tr1) \<Rightarrow> (Some (''failed to create monitoring namespace: '' @ e), tr1)
      | ((output, None), tr1) \<Rightarrow>
     (case range_commands E c (\<lambda>cmd e output. ''failed to setup Helm: '' @ e) (\<lambda>cmd output. [])
             helmCommands tr1 of
        (Some e, tr2) \<Rightarrow> (Some e, tr2)
      | (None, tr2) \<Rightarrow>
     (case writeFile E tr2 ''prometheus-values.yaml'' (prometheusValues config) of
        Some e \<Rightarrow>
          (Some (''failed to create Prometheus values file: '' @ e),
           tr2 @ [EvWriteFile ''prometheus-values.yaml'' (prometheusValues config) 420])
      | None \<Rightarrow>
     (case executeCommand E c installCmd
             (tr2 @ [EvWriteFile ''prometheus-values.yaml'' (prometheusValues config) 420]) of
        ((output, Some e), tr3) \<Rightarrow> (Some (''failed to install Prometheus stack: '' @ e), tr3)
      | ((output, None), tr3) \<Rightarrow>
     (case range_commands E c (\<lambda>cmd e output. ''failed to configure Grafana: '' @ e)
             (\<lambda>cmd output. []) (grafanaCommands config) tr3 of
        (Some e, tr4) \<Rightarrow> (Some e, tr4)
      | (None, tr4) \<Rightarrow>
          range_commands E c (\<lambda>cmd e output. ''failed to wait for pods: '' @ e)
            (\<lambda>cmd output. []) waitCommands tr4)))))"

definition verifySetup :: "env \<Rightarrow> client \<Rightarrow> event list \<Rightarrow> err option \<times> event list" where
  "verifySetup E c tr =
     range_commands E c
       (\<lambda>cmd e output.
          ''verification failed for command '' @ [CHR 0x27] @ cmd @ [CHR 0x27] @ '': '' @ e)
       (\<lambda>cmd output. [EvLog (''Verification output for '' @ cmd @ '':\<newline>'' @ output)])
       [''kubectl get nodes'',
        ''kubectl get pods -A'',
        ''kubectl get services -A'',
        ''kubectl get deployments -A'']
       tr"

definition backupDir :: string where
  "backupDir = ''/root/k8s-backup''"

definition createBackup :: "env \<Rightarrow> client \<Rightarrow> event list \<Rightarrow> err option \<times> event list" where
  "createBackup E c tr =
     range_commands E c
       (\<lambda>cmd e output. ''backup failed: '' @ e)
       (\<lambda>cmd output. [])
       [''mkdir -p '' @ backupDir,
        ''kubectl get all -A -o yaml > '' @ backupDir @ ''/all-resources.yaml'',
        ''kubectl get configmaps -A -o yaml > '' @ backupDir @ ''/configmaps.yaml'',
        ''kubectl get secrets -A -o yaml > '' @ backupDir @ ''/secrets.yaml'',
        ''tar -czf '' @ backupDir @ ''/k8s-backup.tar.gz '' @ backupDir]
       tr"

section \<open>Saving the status\<close>

text \<open>
  \<open>saveStatus\<close> marshals the record and writes the file \<open>status/<ip>.json\<close> (mode
  0644). It returns the error of either step to its caller and prints nothing.
\<close>

definition saveStatus :: "env \<Rightarrow> SetupStatus \<Rightarrow> event list \<Rightarrow> err option \<times> event list" where
  "saveStatus E status tr =
     (let filename = join E ''status'' (VMIP status @ ''.json'')
      in case marshalIndent E status of
           Inl e \<Rightarrow> (Some (''failed to marshal status: '' @ e), tr @ [EvMarshalIndent status])
         | Inr data \<Rightarrow>
             (writeFile E (tr @ [EvMarshalIndent status]) filename data,
              tr @ [EvMarshalIndent status, EvWriteFile filename data 420]))"

section \<open>The loop of \<open>main\<close>\<close>

text \<open>
  The state of \<open>main\<close> while it loops over the addresses: the trace so far and the
  stack of calls deferred by \<open>defer client.Close()\<close>, most recent first. A deferred
  call runs when \<open>main\<close> returns, not when the iteration that deferred it ends.
\<close>

record mstate =
  trace :: "event list"
  deferred :: "client list"

definition vmConfig_of :: "Config \<Rightarrow> string \<Rightarrow> VMConfig" where
  "vmConfig_of config ip =
     \<lparr>IP = ip,
      vm_Username = Username (SSHConfig config),
      vm_Password = Password (SSHConfig config),
      vm_KeyFile = KeyFile (SSHConfig config),
      vm_Timeout = Timeout (SSHConfig config) * 1000000000\<rparr>"

definition status0 :: "env \<Rightarrow> string \<Rightarrow> event list \<Rightarrow> SetupStatus" where
  "status0 E ip tr =
     \<lparr>VMIP = ip,
      StartTime = At (now E tr),
      EndTime = ZeroTime,
      CurrentStep = ''Initializing'',
      Status = ''In Progress'',
      Error = [],
      CompletedSteps = []\<rparr>"

text \<open>
  Recording a failure: the three statements that every failing branch of the loop body
  consists of before its \<open>continue\<close>. The value \<open>saveStatus\<close> returns is not used.
\<close>

definition fail_with :: "env \<Rightarrow> SetupStatus \<Rightarrow> string \<Rightarrow> event list \<Rightarrow> SetupStatus \<times> event list" where
  "fail_with E status msg tr =
     (let status1 = status\<lparr>Status := ''Failed''\<rparr>;
          status2 = status1\<lparr>Error := msg\<rparr>
      in (status2, snd (saveStatus E status2 tr)))"

text \<open>
  One iteration of \<open>for _, ip := range ips\<close>. It returns the status record as the
  iteration leaves it, and the state of \<open>main\<close>.
\<close>

definition processVM :: "env \<Rightarrow> Config \<Rightarrow> string \<Rightarrow> mstate \<Rightarrow> SetupStatus \<times> mstate" where
  "processVM E config ip s =
     (let status = status0 E ip (trace s);
          tr0 = trace s @ [EvPrint (''Starting setup for VM '' @ ip)]
      in
      case connectSSH E (vmConfig_of config ip) tr0 of
        (Inl e, tr1) \<Rightarrow>
          (let r = fail_with E status (''SSH connection failed: '' @ e) tr1
           in (fst r, s\<lparr>trace := snd r\<rparr>))
      | (Inr c, tr1) \<Rightarrow>
      (let d = c # deferred s in
      case checkSystemRequirements E c tr1 of
        (Some e, tr2) \<Rightarrow>
          (let r = fail_with E status (''System requirements check failed: '' @ e) tr2
           in (fst r, \<lparr>trace = snd r, deferred = d\<rparr>))
      | (None, tr2) \<Rightarrow>
      (let status = status\<lparr>CurrentStep := ''Setting up Kubernetes''\<rparr> in
      case setupKubernetes E c config tr2 of
        (Some e, tr3) \<Rightarrow>
          (let r = fail_with E status (''Kubernetes setup failed: '' @ e) tr3
           in (fst r, \<lparr>trace = snd r, deferred = d\<rparr>))
      | (None, tr3) \<Rightarrow>
      (let status = status\<lparr>CompletedSteps := CompletedSteps status @ [''kubernetes'']\<rparr>;
           status = status\<lparr>CurrentStep := ''Setting up monitoring''\<rparr> in
      case setupMonitoring E c config tr3 of
        (Some e, tr4) \<Rightarrow>
          (let r = fail_with E status (''Monitoring setup failed: '' @ e) tr4
           in (fst r, \<lparr>trace = snd r, deferred = d\<rparr>))
      | (None, tr4) \<Rightarrow>
      (let status = status\<lparr>CompletedSteps := CompletedSteps status @ [''monitoring'']\<rparr>;
           status = status\<lparr>CurrentStep := ''Verifying setup''\<rparr> in
      case verifySetup E c tr4 of
        (Some e, tr5) \<Rightarrow>
          (let r = fail_with E status (''Verification failed: '' @ e) tr5
           in (fst r, \<lparr>trace = snd r, deferred = d\<rparr>))
      | (None, tr5) \<Rightarrow>
      (let status = status\<lparr>CompletedSteps := CompletedSteps status @ [''verification'']\<rparr>;
           status = status\<lparr>CurrentStep := ''Creating backup''\<rparr>;
           b = (case createBackup E c tr5 of
                  (Some e, tr6) \<Rightarrow>
                    (status, tr6 @ [EvPrint (''Warning: Backup creation failed: '' @ e)])
                | (None, tr6) \<Rightarrow>
                    (status\<lparr>CompletedSteps := CompletedSteps status @ [''backup'']\<rparr>, tr6));
           status = (fst b)\<lparr>Status := ''Completed''\<rparr>;
           status = status\<lparr>EndTime := At (now E (snd b))\<rparr>;
           tr7 = snd (saveStatus E status (snd b))
       in (status,
           \<lparr>trace = tr7 @ [EvPrint (''Setup completed successfully for VM '' @ ip)],
            deferred = d\<rparr>)))))))"

fun main_loop :: "env \<Rightarrow> Config \<Rightarrow> string list \<Rightarrow> mstate \<Rightarrow> mstate" where
  "main_loop E config [] s = s"
| "main_loop E config (ip # ips) s = main_loop E config ips (snd (processVM E config ip s))"

text \<open>The deferred calls run last in, first out, when \<open>main\<close> returns.\<close>

definition run_deferred :: "mstate \<Rightarrow> event list" where
  "run_deferred s = trace s @ map EvClientClose (deferred s)"

text \<open>
  \<open>main\<close>, given \<open>os.Args\<close>: the exit status of the process and the trace.
  \<open>logger.Fatal\<close> prints and exits with status 1; returning from \<open>main\<close> is exit
  status 0.
\<close>

definition usage :: string where
  "usage = ''Usage: ./k8s-setup <config.json> <ip1> <ip2> <ip3> ...''"

definition main :: "env \<Rightarrow> string list \<Rightarrow> nat \<times> event list" where
  "main E args =
     (if length args < 2 then (1, [EvPrint usage])
      else
        case loadConfig E (args ! 1) [] of
          (Inl e, tr) \<Rightarrow> (1, tr @ [EvPrint (''Failed to load configuration: '' @ e)])
        | (Inr config, tr) \<Rightarrow>
            (let ips = drop 2 args in
             case mkdirAll E tr ''status'' of
               Some e \<Rightarrow>
                 (1, tr @ [EvMkdirAll ''status'' 493,
                           EvPrint (''Failed to create status directory: '' @ e)])
             | None \<Rightarrow>
                 (0, run_deferred
                       (main_loop E config ips
                          \<lparr>trace = tr @ [EvMkdirAll ''status'' 493], deferred = []\<rparr>))))"

section \<open>Observations on a run\<close>

text \<open>
  The records handed to the status store, the connection events, and the commands sent
  to hosts, each in the order of the trace.
\<close>

fun saved :: "event \<Rightarrow> SetupStatus list" where
  "saved (EvMarshalIndent st) = [st]"
| "saved _ = []"

definition saves :: "event list \<Rightarrow> SetupStatus list" where
  "saves tr = observe saved tr"

fun conn :: "event \<Rightarrow> event list" where
  "conn (EvDial n a cc) = [EvDial n a cc]"
| "conn (EvClientClose c) = [EvClientClose c]"
| "conn _ = []"


fun console :: "event \<Rightarrow> string list" where
  "console (EvPrint m) = [m]"
| "console (EvLog m) = [m]"
| "console _ = []"

text \<open>
  The first step of a host's run that fails, with its error, found by running the steps
  in the order and on the traces on which \<open>processVM\<close> runs them. \<open>None\<close>: the
  connection and all five phases succeeded.
\<close>

datatype phase =
  Connection | RequirementCheck | ClusterInstall | MonitoringInstall | Verify | Backup

definition first_failure :: "env \<Rightarrow> Config \<Rightarrow> string \<Rightarrow> mstate \<Rightarrow> (phase \<times> err) option" where
  "first_failure E config ip s =
     (let r0 = connectSSH E (vmConfig_of config ip)
                 (trace s @ [EvPrint (''Starting setup for VM '' @ ip)])
      in case fst r0 of
           Inl e \<Rightarrow> Some (Connection, e)
         | Inr c \<Rightarrow>
     (let r1 = checkSystemRequirements E c (snd r0)
      in case fst r1 of
           Some e \<Rightarrow> Some (RequirementCheck, e)
         | None \<Rightarrow>
     (let r2 = setupKubernetes E c config (snd r1)
      in case fst r2 of
           Some e \<Rightarrow> Some (ClusterInstall, e)
         | None \<Rightarrow>
     (let r3 = setupMonitoring E c config (snd r2)
      in case fst r3 of
           Some e \<Rightarrow> Some (MonitoringInstall, e)
         | None \<Rightarrow>
     (let r4 = verifySetup E c (snd r3)
      in case fst r4 of
           Some e \<Rightarrow> Some (Verify, e)
         | None \<Rightarrow>
     (case fst (createBackup E c (snd r4)) of
        Some e \<Rightarrow> Some (Backup, e)
      | None \<Rightarrow> None))))))"

section \<open>Concrete worlds\<close>

text \<open>
  A configuration with password authentication, and a world in which every connection
  opens and a command fails exactly when \<open>bad\<close> holds of its text.
\<close>

definition config0 :: Config where
  "config0 =
     \<lparr>SSHConfig = \<lparr>Username = ''root'', Password = ''secret'', KeyFile = [], Timeout = 30\<rparr>,
      Kubernetes =
        \<lparr>Version = ''1.24.0-00'', PodCIDR = ''10.244.0.0/16'', ServiceCIDR = ''10.96.0.0/12''\<rparr>,
      Monitoring =
        \<lparr>Prometheus = \<lparr>RetentionTime = ''15d'', StorageClass = ''standard''\<rparr>,
         Grafana = \<lparr>AdminPassword = ''admin'', Domain = ''grafana.example.com''\<rparr>\<rparr>,
      Resources = \<lparr>CPU = ''2'', Memory = ''4Gi''\<rparr>\<rparr>"

definition world :: "(string \<Rightarrow> bool) \<Rightarrow> env" where
  "world bad =
     \<lparr>readFile = (\<lambda>tr p. if p = ''missing'' then Inl ''no such file'' else Inr p),
      unmarshal = (\<lambda>d. Inr config0),
      mkdirAll = (\<lambda>tr p. None),
      parsePrivateKey = (\<lambda>k. if k = ''garbage'' then Inl ''ssh: no key found'' else Inr k),
      dial = (\<lambda>tr n a c. None),
      newSession = (\<lambda>tr c. None),
      combinedOutput =
        (\<lambda>tr c cmd. if bad cmd then (''boom'', Some ''exit status 1'') else ([], None)),
      marshalIndent = (\<lambda>st. Inr (Status st)),
      writeFile = (\<lambda>tr p d. None),
      now = (\<lambda>tr. length tr),
      join = (\<lambda>a b. a @ ''/'' @ b)\<rparr>"

definition calm :: env where
  "calm = world (\<lambda>cmd. False)"

definition unreachable :: env where
  "unreachable = calm\<lparr>dial := (\<lambda>tr n a c. Some ''dial tcp: connection refused'')\<rparr>"

definition disk_full :: "event list \<Rightarrow> string \<Rightarrow> string \<Rightarrow> err option" where
  "disk_full tr p d =
     (if p = ''prometheus-values.yaml'' then None else Some ''no space left on device'')"

definition s0 :: mstate where
  "s0 = \<lparr>trace = [], deferred = []\<rparr>"

definition cc0 :: ClientConfig where
  "cc0 =
     \<lparr>User = ''root'', Auth = [AuthPassword ''secret''],
      HostKeyCallback = InsecureIgnoreHostKey, cc_Timeout = 30000000000\<rparr>"

text \<open>The authentication methods offered in each \<open>Dial\<close>, and a host to connect to.\<close>

fun dialed_auth :: "event \<Rightarrow> AuthMethod list list" where
  "dialed_auth (EvDial n a cc) = [Auth cc]"
| "dialed_auth _ = []"

definition vm0 :: "string \<Rightarrow> VMConfig" where
  "vm0 keyFile =
     \<lparr>IP = ''10.0.0.1'', vm_Username = ''root'', vm_Password = ''secret'',
      vm_KeyFile = keyFile, vm_Timeout = 30000000000\<rparr>"

text \<open>Worlds in which one command fails: the first of the requirement check, of the
  cluster installation, and of the backup.\<close>

definition no_uname :: env where
  "no_uname = world (\<lambda>cmd. cmd = ''uname -a'')"

definition no_apt :: env where
  "no_apt = world (\<lambda>cmd. cmd = ''apt-get update && apt-get upgrade -y'')"

definition no_backup_dir :: env where
  "no_backup_dir = world (\<lambda>cmd. cmd = ''mkdir -p /root/k8s-backup'')"

text \<open>
  An observation is quiet when it ignores what the phases, the store and the console
  produce: sessions, sleeps, file writes and printed lines.
\<close>

definition quiet :: "(event \<Rightarrow> 'a list) \<Rightarrow> bool" where
  "quiet f \<longleftrightarrow>
     (\<forall>c cmd n p d m.
        f (EvNewSession c) = [] \<and> f (EvCombinedOutput c cmd) = [] \<and> f (EvSessionClose c) = [] \<and>
        f (EvSleep n) = [] \<and> f (EvWriteFile p d n) = [] \<and> f (EvPrint m) = [] \<and> f (EvLog m) = [])"

section \<open>Traces of the phases\<close>

lemma observe_append [simp]: "observe f (xs @ ys) = observe f xs @ observe f ys"
  by (simp add: observe_def)

lemma observe_Nil [simp]: "observe f [] = []"
  by (simp add: observe_def)

lemma observe_Cons [simp]: "observe f (x # xs) = f x @ observe f xs"
  by (simp add: observe_def)

lemma quiet_saved: "quiet saved"
  by (simp add: quiet_def)

lemma quiet_conn: "quiet conn"
  by (simp add: quiet_def)

lemma quiet_dialed: "quiet dialed"
  by (simp add: quiet_def)

lemma executeCommand_quiet:
  "quiet f \<Longrightarrow> observe f (snd (executeCommand E c cmd tr)) = observe f tr"
  by (simp add: executeCommand_def quiet_def Let_def split: option.splits)

lemma range_commands_quiet:
  "quiet f \<Longrightarrow> (\<And>cmd out. observe f (after cmd out) = []) \<Longrightarrow>
   observe f (snd (range_commands E c w after cmds tr)) = observe f tr"
proof (induction cmds arbitrary: tr)
  case Nil
  then show ?case by simp
next
  case (Cons cmd cmds)
  show ?case
  proof (cases "executeCommand E c cmd tr")
    case (Pair r tr1)
    have tr1: "observe f tr1 = observe f tr"
      using executeCommand_quiet [OF Cons.prems(1), of E c cmd tr] Pair by simp
    obtain out e where r: "r = (out, e)" by (cases r)
    show ?thesis
    proof (cases e)
      case None
      then show ?thesis
        using Pair r tr1 Cons.IH [OF Cons.prems, of "tr1 @ after cmd out"] Cons.prems(2)
        by simp
    next
      case (Some a)
      then show ?thesis using Pair r tr1 by simp
    qed
  qed
qed

lemma checkSystemRequirements_quiet:
  "quiet f \<Longrightarrow> observe f (snd (checkSystemRequirements E c tr)) = observe f tr"
  unfolding checkSystemRequirements_def
  by (rule range_commands_quiet) (simp_all add: quiet_def)

lemma setupKubernetes_quiet:
  "quiet f \<Longrightarrow> observe f (snd (setupKubernetes E c config tr)) = observe f tr"
  unfolding setupKubernetes_def
  by (rule range_commands_quiet) (simp_all add: quiet_def)

lemma verifySetup_quiet:
  "quiet f \<Longrightarrow> observe f (snd (verifySetup E c tr)) = observe f tr"
  unfolding verifySetup_def
  by (rule range_commands_quiet) (simp_all add: quiet_def)

lemma createBackup_quiet:
  "quiet f \<Longrightarrow> observe f (snd (createBackup E c tr)) = observe f tr"
  unfolding createBackup_def
  by (rule range_commands_quiet) (simp_all add: quiet_def)

lemma setupMonitoring_quiet:
  assumes q: "quiet f"
  shows "observe f (snd (setupMonitoring E c config tr)) = observe f tr"
proof -
  have w: "\<And>p d n. f (EvWriteFile p d n) = []"
    using q by (simp add: quiet_def)
  have rc: "\<And>w cmds t. observe f (snd (range_commands E c w (\<lambda>cmd output. []) cmds t)) = observe f t"
    by (rule range_commands_quiet [OF q]) simp
  have rc': "\<And>w cmds t r t'. range_commands E c w (\<lambda>cmd output. []) cmds t = (r, t') \<Longrightarrow> observe f t' = observe f t"
    using rc by (metis snd_conv)
  have ec': "\<And>cmd t r t'. executeCommand E c cmd t = (r, t') \<Longrightarrow> observe f t' = observe f t"
    using executeCommand_quiet [OF q] by (metis snd_conv)
  show ?thesis
    unfolding setupMonitoring_def
    by (auto split: prod.splits option.splits simp: w rc dest!: rc' ec')
qed

section \<open>The status record after one host\<close>

lemma saveStatus_observe:
  "(\<And>p d n. f (EvWriteFile p d n) = []) \<Longrightarrow>
   observe f (snd (saveStatus E st tr)) = observe f tr @ f (EvMarshalIndent st)"
  by (simp add: saveStatus_def Let_def split: sum.splits)

lemma fail_with_fst:
  "fst (fail_with E st msg tr) = st\<lparr>Status := ''Failed'', Error := msg\<rparr>"
  by (simp add: fail_with_def Let_def)

lemma fail_with_observe:
  "(\<And>p d n. f (EvWriteFile p d n) = []) \<Longrightarrow>
   observe f (snd (fail_with E st msg tr)) =
   observe f tr @ f (EvMarshalIndent (st\<lparr>Status := ''Failed'', Error := msg\<rparr>))"
  by (simp add: fail_with_def Let_def saveStatus_observe)

lemma connectSSH_observe:
  "(\<And>p. f (EvReadFile p) = []) \<Longrightarrow> (\<And>n a cc. f (EvDial n a cc) = []) \<Longrightarrow>
   observe f (snd (connectSSH E vm tr)) = observe f tr"
  by (simp add: connectSSH_def Let_def split: sum.splits option.splits)

lemmas phase_defs = processVM_def first_failure_def Let_def fail_with_fst case_prod_beta

lemma processVM_Status:
  "Status (fst (processVM E config ip s)) =
     (case first_failure E config ip s of
        None \<Rightarrow> ''Completed''
      | Some (Backup, e) \<Rightarrow> ''Completed''
      | Some (p, e) \<Rightarrow> ''Failed'')"
  by (simp add: phase_defs split: sum.split option.split)

lemma processVM_Error:
  "Error (fst (processVM E config ip s)) =
     (case first_failure E config ip s of
        None \<Rightarrow> []
      | Some (Connection, e) \<Rightarrow> ''SSH connection failed: '' @ e
      | Some (RequirementCheck, e) \<Rightarrow> ''System requirements check failed: '' @ e
      | Some (ClusterInstall, e) \<Rightarrow> ''Kubernetes setup failed: '' @ e
      | Some (MonitoringInstall, e) \<Rightarrow> ''Monitoring setup failed: '' @ e
      | Some (Verify, e) \<Rightarrow> ''Verification failed: '' @ e
      | Some (Backup, e) \<Rightarrow> [])"
  by (simp add: phase_defs status0_def split: sum.split option.split)

lemma processVM_CompletedSteps:
  "CompletedSteps (fst (processVM E config ip s)) =
     (case first_failure E config ip s of
        None \<Rightarrow> [''kubernetes'', ''monitoring'', ''verification'', ''backup'']
      | Some (Connection, e) \<Rightarrow> []
      | Some (RequirementCheck, e) \<Rightarrow> []
      | Some (ClusterInstall, e) \<Rightarrow> []
      | Some (MonitoringInstall, e) \<Rightarrow> [''kubernetes'']
      | Some (Verify, e) \<Rightarrow> [''kubernetes'', ''monitoring'']
      | Some (Backup, e) \<Rightarrow> [''kubernetes'', ''monitoring'', ''verification''])"
  by (simp add: phase_defs status0_def split: sum.split option.split)

lemma processVM_CurrentStep:
  "CurrentStep (fst (processVM E config ip s)) =
     (case first_failure E config ip s of
        None \<Rightarrow> ''Creating backup''
      | Some (Connection, e) \<Rightarrow> ''Initializing''
      | Some (RequirementCheck, e) \<Rightarrow> ''Initializing''
      | Some (ClusterInstall, e) \<Rightarrow> ''Setting up Kubernetes''
      | Some (MonitoringInstall, e) \<Rightarrow> ''Setting up monitoring''
      | Some (Verify, e) \<Rightarrow> ''Verifying setup''
      | Some (Backup, e) \<Rightarrow> ''Creating backup'')"
  by (simp add: phase_defs status0_def split: sum.split option.split)

lemma processVM_EndTime:
  "EndTime (fst (processVM E config ip s)) = ZeroTime \<longleftrightarrow>
     (case first_failure E config ip s of
        None \<Rightarrow> False
      | Some (Backup, e) \<Rightarrow> False
      | Some (p, e) \<Rightarrow> True)"
  by (simp add: phase_defs status0_def split: sum.split option.split)

lemma processVM_early:
  "first_failure E config ip s = Some (p, e) \<Longrightarrow> p = Connection \<or> p = RequirementCheck \<Longrightarrow>
   fst (processVM E config ip s) =
     (status0 E ip (trace s))
       \<lparr>Status := ''Failed'',
        Error := (if p = Connection then ''SSH connection failed: '' else
                  ''System requirements check failed: '') @ e\<rparr>"
  by (auto simp add: phase_defs split: sum.splits option.splits)

lemma quiet_simps:
  assumes "quiet f"
  shows "f (EvWriteFile p d n) = []" "f (EvPrint m) = []" "f (EvLog m) = []"
  using assms by (simp_all add: quiet_def)

lemma processVM_observe:
  assumes q: "quiet f"
  shows "observe f (trace (snd (processVM E config ip s))) =
         observe f (snd (connectSSH E (vmConfig_of config ip)
                           (trace s @ [EvPrint (''Starting setup for VM '' @ ip)]))) @
         f (EvMarshalIndent (fst (processVM E config ip s)))"
  by (simp add: processVM_def Let_def case_prod_beta fail_with_fst fail_with_observe
        saveStatus_observe quiet_simps [OF q] checkSystemRequirements_quiet [OF q]
        setupKubernetes_quiet [OF q] setupMonitoring_quiet [OF q] verifySetup_quiet [OF q]
        createBackup_quiet [OF q]
      split: sum.split option.split)

lemma processVM_deferred:
  "deferred (snd (processVM E config ip s)) =
     (case fst (connectSSH E (vmConfig_of config ip)
                  (trace s @ [EvPrint (''Starting setup for VM '' @ ip)])) of
        Inl e \<Rightarrow> deferred s
      | Inr c \<Rightarrow> c # deferred s)"
  by (simp add: processVM_def Let_def case_prod_beta split: sum.split option.split)

lemma processVM_saves:
  "saves (trace (snd (processVM E config ip s))) = saves (trace s) @ [fst (processVM E config ip s)]"
  unfolding saves_def
  by (simp add: processVM_observe [OF quiet_saved] connectSSH_observe)

section \<open>Runs in the concrete worlds\<close>

lemma executeCommand_world:
  "executeCommand (world bad) c cmd tr =
     (if bad cmd then (''boom'', Some ''command failed: exit status 1'') else ([], None),
      tr @ [EvNewSession c, EvCombinedOutput c cmd, EvSessionClose c])"
  by (simp add: executeCommand_def world_def Let_def)

lemma range_commands_world_ok:
  "\<forall>cmd \<in> set cmds. \<not> bad cmd \<Longrightarrow> fst (range_commands (world bad) c w a cmds tr) = None"
  by (induction cmds arbitrary: tr) (simp_all add: executeCommand_world)

lemma range_commands_world_bad:
  "bad cmd \<Longrightarrow>
   fst (range_commands (world bad) c w a (cmd # cmds) tr) =
     Some (w cmd ''command failed: exit status 1'' ''boom'')"
  by (simp add: executeCommand_world)

lemma setupMonitoring_world_ok:
  assumes "\<not> bad ''kubectl create namespace monitoring''"
    and "\<forall>cmd \<in> set helmCommands. \<not> bad cmd"
    and "\<not> bad installCmd"
    and "\<forall>cmd \<in> set (grafanaCommands config). \<not> bad cmd"
    and "\<forall>cmd \<in> set waitCommands. \<not> bad cmd"
  shows "fst (setupMonitoring (world bad) c config tr) = None"
proof -
  have wf: "\<And>t p d. writeFile (world bad) t p d = None"
    by (simp add: world_def)
  show ?thesis
    using assms
    by (simp add: setupMonitoring_def case_prod_beta executeCommand_world wf
          range_commands_world_ok del: range_commands.simps)
qed

lemma connectSSH_world:
  "connectSSH (world bad) (vmConfig_of config0 ip) tr =
     (Inr (dial_count tr), tr @ [EvDial ''tcp'' (ip @ '':22'') cc0])"
  by (simp add: connectSSH_def vmConfig_of_def config0_def sshConfig0_def cc0_def world_def)

lemma connectSSH_unreachable:
  "connectSSH unreachable (vmConfig_of config0 ip) tr =
     (Inl ''dial tcp: connection refused'', tr @ [EvDial ''tcp'' (ip @ '':22'') cc0])"
  by (simp add: connectSSH_def vmConfig_of_def config0_def sshConfig0_def cc0_def world_def
        unreachable_def calm_def)

lemma first_failure_calm: "first_failure calm config0 ip s = None"
  unfolding calm_def first_failure_def Let_def connectSSH_world
  by (simp add: checkSystemRequirements_def setupKubernetes_def verifySetup_def createBackup_def
        range_commands_world_ok setupMonitoring_world_ok del: range_commands.simps)

lemma first_failure_unreachable:
  "first_failure unreachable config0 ip s = Some (Connection, ''dial tcp: connection refused'')"
  unfolding first_failure_def Let_def connectSSH_unreachable by simp

lemma first_failure_no_uname:
  "first_failure no_uname config0 ip s =
     Some (RequirementCheck, ''system check failed: command failed: exit status 1'')"
  unfolding no_uname_def first_failure_def Let_def connectSSH_world
  by (simp add: checkSystemRequirements_def range_commands_world_bad del: range_commands.simps)

lemma first_failure_no_apt:
  "first_failure no_apt config0 ip s =
     Some (ClusterInstall,
       ''failed to execute command '' @ [CHR 0x27] @ ''apt-get update && apt-get upgrade -y'' @
       [CHR 0x27] @ '': command failed: exit status 1\<newline>Output: boom'')"
  unfolding no_apt_def first_failure_def Let_def connectSSH_world
  by (simp add: checkSystemRequirements_def setupKubernetes_def kubernetes_commands_def
        range_commands_world_ok range_commands_world_bad del: range_commands.simps)

lemma first_failure_no_backup_dir:
  "first_failure no_backup_dir config0 ip s =
     Some (Backup, ''backup failed: command failed: exit status 1'')"
  unfolding no_backup_dir_def first_failure_def Let_def connectSSH_world
  by (simp add: checkSystemRequirements_def setupKubernetes_def verifySetup_def createBackup_def
        kubernetes_commands_def helmCommands_def installCmd_def grafanaCommands_def
        waitCommands_def backupDir_def
        range_commands_world_ok range_commands_world_bad setupMonitoring_world_ok
        del: range_commands.simps)

section \<open>One host and the loop\<close>

lemma main_loop_saves_length:
  "length (saves (trace (main_loop E config ips s))) = length (saves (trace s)) + length ips"
  by (induction ips arbitrary: s) (simp_all add: processVM_saves)

lemma processVM_conn_failed:
  "fst (connectSSH E (vmConfig_of config ip)
          (trace s @ [EvPrint (''Starting setup for VM '' @ ip)])) = Inl e \<Longrightarrow>
   processVM E config ip s =
     (fst (fail_with E (status0 E ip (trace s)) (''SSH connection failed: '' @ e)
             (snd (connectSSH E (vmConfig_of config ip)
                     (trace s @ [EvPrint (''Starting setup for VM '' @ ip)])))),
      s\<lparr>trace :=
           snd (fail_with E (status0 E ip (trace s)) (''SSH connection failed: '' @ e)
                  (snd (connectSSH E (vmConfig_of config ip)
                          (trace s @ [EvPrint (''Starting setup for VM '' @ ip)]))))\<rparr>)"
  by (simp add: processVM_def Let_def case_prod_beta)


lemma processVM_backup_warning:
  "first_failure E config ip s = Some (Backup, e) \<Longrightarrow>
   EvPrint (''Warning: Backup creation failed: '' @ e) \<in> set (trace (snd (processVM E config ip s)))"
  by (simp add: processVM_def first_failure_def Let_def case_prod_beta saveStatus_def
      split: sum.splits option.splits)

section \<open>The result of writing a file\<close>

text \<open>
  Replacing the answers of \<open>ioutil.WriteFile\<close>, except those for the Prometheus values
  file, changes nothing: the result of writing a status file is never looked at.
\<close>

lemma executeCommand_writeFile:
  "executeCommand (E\<lparr>writeFile := w\<rparr>) c cmd tr = executeCommand E c cmd tr"
  by (simp add: executeCommand_def Let_def cong: option.case_cong)

lemma range_commands_writeFile:
  "range_commands (E\<lparr>writeFile := w\<rparr>) c wr a cmds tr = range_commands E c wr a cmds tr"
  by (induction cmds arbitrary: tr) (simp_all add: executeCommand_writeFile)

lemma connectSSH_writeFile:
  "connectSSH (E\<lparr>writeFile := w\<rparr>) vm tr = connectSSH E vm tr"
  by (simp add: connectSSH_def Let_def cong: option.case_cong sum.case_cong)

lemma loadConfig_writeFile:
  "loadConfig (E\<lparr>writeFile := w\<rparr>) path tr = loadConfig E path tr"
  by (simp add: loadConfig_def cong: sum.case_cong)

lemma saveStatus_writeFile:
  "snd (saveStatus (E\<lparr>writeFile := w\<rparr>) st tr) = snd (saveStatus E st tr)"
  by (simp add: saveStatus_def Let_def split: sum.splits)

lemma fail_with_writeFile:
  "fail_with (E\<lparr>writeFile := w\<rparr>) st msg tr = fail_with E st msg tr"
  by (simp add: fail_with_def Let_def saveStatus_writeFile)

lemma setupMonitoring_writeFile:
  "(\<forall>tr d. w tr ''prometheus-values.yaml'' d = writeFile E tr ''prometheus-values.yaml'' d) \<Longrightarrow>
   setupMonitoring (E\<lparr>writeFile := w\<rparr>) c config tr = setupMonitoring E c config tr"
  by (simp add: setupMonitoring_def executeCommand_writeFile range_commands_writeFile
        del: range_commands.simps cong: prod.case_cong option.case_cong)

lemma processVM_writeFile:
  "(\<forall>tr d. w tr ''prometheus-values.yaml'' d = writeFile E tr ''prometheus-values.yaml'' d) \<Longrightarrow>
   processVM (E\<lparr>writeFile := w\<rparr>) config ip s = processVM E config ip s"
  by (simp add: processVM_def Let_def status0_def checkSystemRequirements_def setupKubernetes_def
        verifySetup_def createBackup_def connectSSH_writeFile fail_with_writeFile
        saveStatus_writeFile setupMonitoring_writeFile range_commands_writeFile
        del: range_commands.simps cong: prod.case_cong sum.case_cong option.case_cong)

lemma main_loop_writeFile:
  "(\<forall>tr d. w tr ''prometheus-values.yaml'' d = writeFile E tr ''prometheus-values.yaml'' d) \<Longrightarrow>
   main_loop (E\<lparr>writeFile := w\<rparr>) config ips s = main_loop E config ips s"
  by (induction ips arbitrary: s) (simp_all add: processVM_writeFile)

lemma main_writeFile:
  "(\<forall>tr d. w tr ''prometheus-values.yaml'' d = writeFile E tr ''prometheus-values.yaml'' d) \<Longrightarrow>
   main (E\<lparr>writeFile := w\<rparr>) args = main E args"
  by (simp add: main_def Let_def loadConfig_writeFile main_loop_writeFile
        cong: prod.case_cong sum.case_cong option.case_cong)

lemma saves_s0: "saves (trace s0) = []"
  by (simp add: saves_def s0_def)

section \<open>The claims\<close>

text \<open>
  C1 (as amended). When the connection and all five phases succeed, the final record's
  \<open>CompletedSteps\<close> is \<open>[kubernetes, monitoring, verification, backup]\<close>, in that
  order: four names, none for the requirement check, which appends nothing. So after a
  failure of the cluster installation \<open>CompletedSteps\<close> is empty.
\<close>

theorem completed_steps_by_outcome:
  "(first_failure E config ip s = None \<longrightarrow>
      CompletedSteps (fst (processVM E config ip s)) =
        [''kubernetes'', ''monitoring'', ''verification'', ''backup'']) \<and>
   (first_failure E config ip s = Some (ClusterInstall, e) \<longrightarrow>
      CompletedSteps (fst (processVM E config ip s)) = [])"
  by (simp add: processVM_CompletedSteps)

text \<open>
  Witness for C1: the world where everything succeeds, and the world where the first
  command of the cluster installation fails.
\<close>

theorem completed_steps_by_outcome_witness:
  "first_failure calm config0 ''10.0.0.1'' s0 = None \<and>
   CompletedSteps (fst (processVM calm config0 ''10.0.0.1'' s0)) =
     [''kubernetes'', ''monitoring'', ''verification'', ''backup''] \<and>
   (\<exists>e. first_failure no_apt config0 ''10.0.0.1'' s0 = Some (ClusterInstall, e)) \<and>
   CompletedSteps (fst (processVM no_apt config0 ''10.0.0.1'' s0)) = []"
  using completed_steps_by_outcome [of calm config0 "''10.0.0.1''" s0]
    completed_steps_by_outcome [of no_apt config0 "''10.0.0.1''" s0]
  by (simp add: first_failure_calm first_failure_no_apt)

text \<open>
  Counterexample to C1 as stated: after a fully successful run the list does not have
  five entries, and after a failed cluster installation it does not have one.
\<close>

theorem requirement_check_not_recorded:
  "first_failure calm config0 ''10.0.0.1'' s0 = None \<and>
   length (CompletedSteps (fst (processVM calm config0 ''10.0.0.1'' s0))) \<noteq> 5 \<and>
   (\<exists>e. first_failure no_apt config0 ''10.0.0.1'' s0 = Some (ClusterInstall, e)) \<and>
   length (CompletedSteps (fst (processVM no_apt config0 ''10.0.0.1'' s0))) \<noteq> 1"
  by (simp add: processVM_CompletedSteps first_failure_calm first_failure_no_apt)

text \<open>
  C2 (as amended). Whenever a host's record ends with \<open>Status = Failed\<close>, its
  \<open>Error\<close> is not empty, and that record is the one handed to the status store, as the
  only save of the host's run. \<open>EndTime\<close> is set only on the completed path: it is
  set exactly when the record ends with \<open>Status = Completed\<close>, so a failed record
  carries the zero \<open>EndTime\<close>.
\<close>

theorem failed_has_error:
  "(Status (fst (processVM E config ip s)) = ''Failed'' \<longrightarrow>
      Error (fst (processVM E config ip s)) \<noteq> [] \<and>
      EndTime (fst (processVM E config ip s)) = ZeroTime \<and>
      saves (trace (snd (processVM E config ip s))) =
        saves (trace s) @ [fst (processVM E config ip s)]) \<and>
   (EndTime (fst (processVM E config ip s)) \<noteq> ZeroTime \<longleftrightarrow>
      Status (fst (processVM E config ip s)) = ''Completed'')"
proof -
  have only_completed:
    "EndTime (fst (processVM E config ip s)) \<noteq> ZeroTime \<longleftrightarrow>
     Status (fst (processVM E config ip s)) = ''Completed''"
    by (simp add: processVM_EndTime processVM_Status
        split: option.split prod.split phase.split)
  have failed:
    "Error (fst (processVM E config ip s)) \<noteq> [] \<and>
     EndTime (fst (processVM E config ip s)) = ZeroTime"
    if f: "Status (fst (processVM E config ip s)) = ''Failed''"
  proof -
    obtain p e where ff: "first_failure E config ip s = Some (p, e)" and p: "p \<noteq> Backup"
      using f by (auto simp add: processVM_Status split: option.splits phase.splits)
    have "Error (fst (processVM E config ip s)) \<noteq> []"
      using ff p by (cases p) (simp_all add: processVM_Error)
    moreover have "EndTime (fst (processVM E config ip s)) = ZeroTime"
      using ff p by (cases p) (simp_all add: processVM_EndTime)
    ultimately show ?thesis by simp
  qed
  show ?thesis
    using only_completed failed by (simp add: processVM_saves)
qed

text \<open>Witness for C2: a host that refuses the connection.\<close>

theorem failed_has_error_witness:
  "Status (fst (processVM unreachable config0 ''10.0.0.1'' s0)) = ''Failed'' \<and>
   Error (fst (processVM unreachable config0 ''10.0.0.1'' s0)) \<noteq> [] \<and>
   EndTime (fst (processVM unreachable config0 ''10.0.0.1'' s0)) = ZeroTime \<and>
   saves (trace (snd (processVM unreachable config0 ''10.0.0.1'' s0))) =
     saves (trace s0) @ [fst (processVM unreachable config0 ''10.0.0.1'' s0)] \<and>
   (EndTime (fst (processVM unreachable config0 ''10.0.0.1'' s0)) \<noteq> ZeroTime \<longleftrightarrow>
      Status (fst (processVM unreachable config0 ''10.0.0.1'' s0)) = ''Completed'')"
proof -
  have h: "Status (fst (processVM unreachable config0 ''10.0.0.1'' s0)) = ''Failed''"
    by (simp add: processVM_Status first_failure_unreachable)
  show ?thesis
    using h failed_has_error [of unreachable config0 "''10.0.0.1''" s0] by simp
qed

text \<open>
  Counterexample to C2 as stated: for a host that refuses the connection, the record
  that is saved has \<open>Status = Failed\<close> and the zero \<open>EndTime\<close>.
\<close>

theorem failed_without_end_time:
  "Status (fst (processVM unreachable config0 ''10.0.0.1'' s0)) = ''Failed'' \<and>
   EndTime (fst (processVM unreachable config0 ''10.0.0.1'' s0)) = ZeroTime \<and>
   saves (trace (snd (processVM unreachable config0 ''10.0.0.1'' s0))) =
     [fst (processVM unreachable config0 ''10.0.0.1'' s0)]"
  by (simp add: processVM_Status processVM_EndTime processVM_saves first_failure_unreachable
        saves_s0)

text \<open>
  C3 (as amended). Each host's run hands the status record to the store exactly once,
  as the run leaves it: after a failure has been written into it, or after it has been
  marked completed. A run over a list of hosts makes one save per host; no save happens
  where a phase succeeds.
\<close>

theorem one_save_per_host:
  "saves (trace (snd (processVM E config ip s))) =
     saves (trace s) @ [fst (processVM E config ip s)] \<and>
   length (saves (trace (main_loop E config ips s))) = length (saves (trace s)) + length ips"
  by (simp add: processVM_saves main_loop_saves_length)

text \<open>
  Counterexample to C3 as stated: in a fully successful run four phases are appended to
  \<open>CompletedSteps\<close>, and the record is saved once.
\<close>

theorem no_save_at_phase_success:
  "first_failure calm config0 ''10.0.0.1'' s0 = None \<and>
   length (CompletedSteps (fst (processVM calm config0 ''10.0.0.1'' s0))) = 4 \<and>
   length (saves (trace (snd (processVM calm config0 ''10.0.0.1'' s0)))) = 1"
  by (simp add: processVM_CompletedSteps processVM_saves first_failure_calm saves_s0)

lemma loadConfig_calm:
  "path \<noteq> ''missing'' \<Longrightarrow> loadConfig calm path tr = (Inr config0, tr @ [EvReadFile path])"
  by (simp add: loadConfig_def calm_def world_def)

lemma mkdirAll_calm: "mkdirAll calm tr p = None"
  by (simp add: calm_def world_def)

text \<open>
  C4 (as amended). The program treats an argument list as a usage error exactly when it
  has no configuration path: it prints the usage line and exits with status 1. With a
  configuration path and no host address, once the configuration has loaded and the
  status directory exists, it processes no host and returns normally, with exit status 0.
\<close>

theorem usage_error_only_without_config:
  "(length args < 2 \<longrightarrow> main E args = (1, [EvPrint usage])) \<and>
   (length args = 2 \<and> fst (loadConfig E (args ! 1) []) = Inr config \<and>
    mkdirAll E [EvReadFile (args ! 1)] ''status'' = None \<longrightarrow>
    main E args = (0, [EvReadFile (args ! 1), EvMkdirAll ''status'' 493]))"
  by (auto simp add: main_def loadConfig_def run_deferred_def Let_def
      split: sum.splits prod.splits)

text \<open>Witness for C4: the program name alone, and the program name with a path.\<close>

theorem usage_error_only_without_config_witness:
  "length [''k8s-setup''] < 2 \<and> main calm [''k8s-setup''] = (1, [EvPrint usage]) \<and>
   length [''k8s-setup'', ''config.json''] = 2 \<and>
   fst (loadConfig calm ([''k8s-setup'', ''config.json''] ! 1) []) = Inr config0 \<and>
   mkdirAll calm [EvReadFile ([''k8s-setup'', ''config.json''] ! 1)] ''status'' = None \<and>
   main calm [''k8s-setup'', ''config.json''] =
     (0, [EvReadFile ''config.json'', EvMkdirAll ''status'' 493])"
  using usage_error_only_without_config [of "[''k8s-setup'']" calm config0]
    usage_error_only_without_config [of "[''k8s-setup'', ''config.json'']" calm config0]
  by (simp add: loadConfig_calm mkdirAll_calm)

text \<open>
  Counterexample to C4 as stated: with a configuration path and no host address the exit
  status is 0 and nothing is printed.
\<close>

theorem no_hosts_exit_zero:
  "fst (main calm [''k8s-setup'', ''config.json'']) = 0 \<and>
   observe console (snd (main calm [''k8s-setup'', ''config.json''])) = []"
  by (simp add: main_def loadConfig_calm mkdirAll_calm run_deferred_def)

text \<open>
  C5 (as amended). A failing status save returns its error to the caller, where it is
  dropped: whether the writes of status files fail or succeed, one host's run and the
  whole program return the same records, make the same calls and print the same lines.
  The record in memory is unchanged and the run continues.
\<close>

theorem save_result_dropped:
  assumes "\<forall>tr d. w tr ''prometheus-values.yaml'' d = writeFile E tr ''prometheus-values.yaml'' d"
  shows "processVM (E\<lparr>writeFile := w\<rparr>) config ip s = processVM E config ip s \<and>
         main (E\<lparr>writeFile := w\<rparr>) args = main E args"
  using assms by (simp add: processVM_writeFile main_writeFile)

text \<open>Witness for C5: a disk that is full for every status file.\<close>

theorem save_result_dropped_witness:
  "(\<forall>tr d. disk_full tr ''prometheus-values.yaml'' d =
      writeFile calm tr ''prometheus-values.yaml'' d) \<and>
   processVM (calm\<lparr>writeFile := disk_full\<rparr>) config0 ''10.0.0.1'' s0 =
     processVM calm config0 ''10.0.0.1'' s0 \<and>
   main (calm\<lparr>writeFile := disk_full\<rparr>) [''k8s-setup'', ''config.json'', ''10.0.0.1''] =
     main calm [''k8s-setup'', ''config.json'', ''10.0.0.1'']"
proof -
  have h: "\<forall>tr d. disk_full tr ''prometheus-values.yaml'' d =
      writeFile calm tr ''prometheus-values.yaml'' d"
    by (simp add: disk_full_def calm_def world_def)
  show ?thesis
    using h save_result_dropped [of disk_full calm config0 "''10.0.0.1''" s0
        "[''k8s-setup'', ''config.json'', ''10.0.0.1'']"]
    by simp
qed

text \<open>
  Counterexample to C5 as stated: the host refuses the connection and the disk is full.
  The save returns the error, it is the last call of the host's run, and the console
  shows the starting line only.
\<close>

theorem save_failure_not_logged:
  "saveStatus (unreachable\<lparr>writeFile := disk_full\<rparr>)
     (fst (processVM (unreachable\<lparr>writeFile := disk_full\<rparr>) config0 ''10.0.0.1'' s0))
     [EvPrint ''Starting setup for VM 10.0.0.1'', EvDial ''tcp'' ''10.0.0.1:22'' cc0] =
     (Some ''no space left on device'',
      trace (snd (processVM (unreachable\<lparr>writeFile := disk_full\<rparr>) config0 ''10.0.0.1'' s0))) \<and>
   observe console
     (trace (snd (processVM (unreachable\<lparr>writeFile := disk_full\<rparr>) config0 ''10.0.0.1'' s0))) =
     [''Starting setup for VM 10.0.0.1'']"
proof -
  let ?E = "unreachable\<lparr>writeFile := disk_full\<rparr>"
  have c: "\<And>tr. connectSSH ?E (vmConfig_of config0 ''10.0.0.1'') tr =
     (Inl ''dial tcp: connection refused'', tr @ [EvDial ''tcp'' (''10.0.0.1'' @ '':22'') cc0])"
    by (simp only: connectSSH_writeFile connectSSH_unreachable)
  have m: "\<And>st. marshalIndent unreachable st = Inr (Status st)"
    by (simp add: unreachable_def calm_def world_def)
  have j: "\<And>a b. join unreachable a b = a @ ''/'' @ b"
    by (simp add: unreachable_def calm_def world_def)
  have n: "\<And>tr. now unreachable tr = length tr"
    by (simp add: unreachable_def calm_def world_def)
  show ?thesis
    by (simp add: processVM_conn_failed c fail_with_def saveStatus_def Let_def m j n
          disk_full_def status0_def s0_def)
qed

text \<open>
  C6. A host's final record has \<open>Status = Completed\<close> if and only if the connection,
  the requirement check, the cluster installation, the monitoring installation and the
  verification all succeeded, whatever the backup does. When the backup is the step that
  fails, the status is still \<open>Completed\<close>, the error is empty, \<open>backup\<close> is left out
  of \<open>CompletedSteps\<close>, and a warning is printed.
\<close>

theorem completed_iff_through_verify:
  "(Status (fst (processVM E config ip s)) = ''Completed'' \<longleftrightarrow>
      (case first_failure E config ip s of None \<Rightarrow> True | Some (p, e) \<Rightarrow> p = Backup)) \<and>
   (first_failure E config ip s = Some (Backup, e) \<longrightarrow>
      Status (fst (processVM E config ip s)) = ''Completed'' \<and>
      Error (fst (processVM E config ip s)) = [] \<and>
      CompletedSteps (fst (processVM E config ip s)) =
        [''kubernetes'', ''monitoring'', ''verification''] \<and>
      EvPrint (''Warning: Backup creation failed: '' @ e)
        \<in> set (trace (snd (processVM E config ip s))))"
proof -
  have "Status (fst (processVM E config ip s)) = ''Completed'' \<longleftrightarrow>
      (case first_failure E config ip s of None \<Rightarrow> True | Some (p, e) \<Rightarrow> p = Backup)"
    by (simp add: processVM_Status split: option.split prod.split phase.split)
  moreover have "first_failure E config ip s = Some (Backup, e) \<longrightarrow>
      Status (fst (processVM E config ip s)) = ''Completed'' \<and>
      Error (fst (processVM E config ip s)) = [] \<and>
      CompletedSteps (fst (processVM E config ip s)) =
        [''kubernetes'', ''monitoring'', ''verification''] \<and>
      EvPrint (''Warning: Backup creation failed: '' @ e)
        \<in> set (trace (snd (processVM E config ip s)))"
    using processVM_backup_warning [of E config ip s e]
    by (simp add: processVM_Status processVM_Error processVM_CompletedSteps)
  ultimately show ?thesis by blast
qed

text \<open>Witness for C6: the world in which the first command of the backup fails.\<close>

theorem completed_iff_through_verify_witness:
  "first_failure no_backup_dir config0 ''10.0.0.1'' s0 =
     Some (Backup, ''backup failed: command failed: exit status 1'') \<and>
   Status (fst (processVM no_backup_dir config0 ''10.0.0.1'' s0)) = ''Completed'' \<and>
   Error (fst (processVM no_backup_dir config0 ''10.0.0.1'' s0)) = [] \<and>
   CompletedSteps (fst (processVM no_backup_dir config0 ''10.0.0.1'' s0)) =
     [''kubernetes'', ''monitoring'', ''verification''] \<and>
   EvPrint ''Warning: Backup creation failed: backup failed: command failed: exit status 1''
     \<in> set (trace (snd (processVM no_backup_dir config0 ''10.0.0.1'' s0)))"
  using completed_iff_through_verify [of no_backup_dir config0 "''10.0.0.1''" s0
      "''backup failed: command failed: exit status 1''"]
  by (simp add: first_failure_no_backup_dir)



text \<open>
  C10. When the connection succeeds and the requirement check fails, the record that is
  saved is the initial one with only \<open>Status\<close> and \<open>Error\<close> changed; in particular
  \<open>CurrentStep\<close> is still \<open>Initializing\<close>.
\<close>

theorem requirement_failure_frame:
  assumes "first_failure E config ip s = Some (RequirementCheck, e)"
  shows "fst (processVM E config ip s) =
           (status0 E ip (trace s))
             \<lparr>Status := ''Failed'', Error := ''System requirements check failed: '' @ e\<rparr> \<and>
         CurrentStep (fst (processVM E config ip s)) = ''Initializing'' \<and>
         saves (trace (snd (processVM E config ip s))) =
           saves (trace s) @ [fst (processVM E config ip s)]"
  using processVM_early [OF assms] by (simp add: processVM_saves status0_def)

text \<open>Witness for C10: the world in which \<open>uname -a\<close> fails.\<close>

theorem requirement_failure_frame_witness:
  "first_failure no_uname config0 ''10.0.0.1'' s0 =
     Some (RequirementCheck, ''system check failed: command failed: exit status 1'') \<and>
   fst (processVM no_uname config0 ''10.0.0.1'' s0) =
     (status0 no_uname ''10.0.0.1'' (trace s0))
       \<lparr>Status := ''Failed'',
        Error := ''System requirements check failed: system check failed: command failed: exit status 1''\<rparr> \<and>
   CurrentStep (fst (processVM no_uname config0 ''10.0.0.1'' s0)) = ''Initializing''"
proof -
  have h: "first_failure no_uname config0 ''10.0.0.1'' s0 =
     Some (RequirementCheck, ''system check failed: command failed: exit status 1'')"
    by (rule first_failure_no_uname)
  show ?thesis
    using h requirement_failure_frame [OF h] by (simp add: status0_def)
qed

text \<open>Connections in the world where everything succeeds.\<close>

lemma calm_conn:
  "observe conn (trace (snd (processVM calm config0 ip s))) =
     observe conn (trace s) @ [EvDial ''tcp'' (ip @ '':22'') cc0]"
  by (simp add: processVM_observe [OF quiet_conn] calm_def connectSSH_world)

lemma calm_dial_count:
  "dial_count (trace (snd (processVM calm config0 ip s))) = Suc (dial_count (trace s))"
  by (simp add: dial_count_def processVM_observe [OF quiet_dialed] calm_def connectSSH_world)

lemma calm_deferred:
  "deferred (snd (processVM calm config0 ip s)) = dial_count (trace s) # deferred s"
  by (simp add: processVM_deferred calm_def connectSSH_world dial_count_def)

text \<open>
  C8, evaluated on two hosts that both connect and complete. The claim asks that the
  first host's connection be closed before the second host is contacted. In the run,
  both connections are opened first and both are closed after the loop, the second one
  first: while the second host is processed the first connection is still open.
\<close>

theorem connections_closed_at_exit_only:
  "main calm [''k8s-setup'', ''config.json'', ''10.0.0.1'', ''10.0.0.2''] =
     (0, snd (main calm [''k8s-setup'', ''config.json'', ''10.0.0.1'', ''10.0.0.2''])) \<and>
   observe conn (snd (main calm [''k8s-setup'', ''config.json'', ''10.0.0.1'', ''10.0.0.2''])) =
     [EvDial ''tcp'' ''10.0.0.1:22'' cc0, EvDial ''tcp'' ''10.0.0.2:22'' cc0,
      EvClientClose 1, EvClientClose 0]"
proof -
  have d: "dial_count [EvReadFile ''config.json'', EvMkdirAll ''status'' 493] = 0"
    by (simp add: dial_count_def)
  show ?thesis
    by (simp add: main_def loadConfig_calm mkdirAll_calm run_deferred_def calm_conn
          calm_dial_count calm_deferred d)
qed

text \<open>
  C9. With a key file configured, \<open>connectSSH\<close> (and \<open>Connect\<close> of package ssh)
  dials with the parsed key as the only authentication method; when the key file cannot
  be read, or its contents cannot be parsed, it returns the error and dials nothing.
  With no key file it dials with the password as the only method.
\<close>

theorem key_replaces_password:
  "(vm_KeyFile vm \<noteq> [] \<and> readFile E tr (vm_KeyFile vm) = Inr key \<and>
    parsePrivateKey E key = Inr signer \<longrightarrow>
      observe dialed_auth (snd (connectSSH E vm tr)) =
        observe dialed_auth tr @ [[AuthPublicKeys signer]] \<and>
      observe dialed_auth (snd (Connect E vm tr)) =
        observe dialed_auth tr @ [[AuthPublicKeys signer]]) \<and>
   (vm_KeyFile vm \<noteq> [] \<and> readFile E tr (vm_KeyFile vm) = Inl e \<longrightarrow>
      fst (connectSSH E vm tr) = Inl (''failed to read key file: '' @ e) \<and>
      observe dialed (snd (connectSSH E vm tr)) = observe dialed tr \<and>
      fst (Connect E vm tr) = Inl (''failed to read key file: '' @ e) \<and>
      observe dialed (snd (Connect E vm tr)) = observe dialed tr) \<and>
   (vm_KeyFile vm \<noteq> [] \<and> readFile E tr (vm_KeyFile vm) = Inr key \<and>
    parsePrivateKey E key = Inl e \<longrightarrow>
      fst (connectSSH E vm tr) = Inl (''failed to parse private key: '' @ e) \<and>
      observe dialed (snd (connectSSH E vm tr)) = observe dialed tr \<and>
      fst (Connect E vm tr) = Inl (''failed to parse private key: '' @ e) \<and>
      observe dialed (snd (Connect E vm tr)) = observe dialed tr) \<and>
   (vm_KeyFile vm = [] \<longrightarrow>
      observe dialed_auth (snd (connectSSH E vm tr)) =
        observe dialed_auth tr @ [[AuthPassword (vm_Password vm)]] \<and>
      observe dialed_auth (snd (Connect E vm tr)) =
        observe dialed_auth tr @ [[AuthPassword (vm_Password vm)]])"
  by (simp add: connectSSH_def Connect_def sshConfig0_def Let_def split: option.split)

lemma calm_files:
  "readFile calm tr p = (if p = ''missing'' then Inl ''no such file'' else Inr p)"
  "parsePrivateKey calm k = (if k = ''garbage'' then Inl ''ssh: no key found'' else Inr k)"
  by (simp_all add: calm_def world_def)

text \<open>
  Witness for C9: a readable key, a missing file, a file that is not a key, and no key
  file.
\<close>

theorem key_replaces_password_witness:
  "(vm_KeyFile (vm0 ''id_rsa'') \<noteq> [] \<and>
    readFile calm [] (vm_KeyFile (vm0 ''id_rsa'')) = Inr ''id_rsa'' \<and>
    parsePrivateKey calm ''id_rsa'' = Inr ''id_rsa'' \<and>
    observe dialed_auth (snd (connectSSH calm (vm0 ''id_rsa'') [])) = [[AuthPublicKeys ''id_rsa'']]) \<and>
   (vm_KeyFile (vm0 ''missing'') \<noteq> [] \<and>
    readFile calm [] (vm_KeyFile (vm0 ''missing'')) = Inl ''no such file'' \<and>
    fst (connectSSH calm (vm0 ''missing'') []) = Inl ''failed to read key file: no such file'' \<and>
    observe dialed (snd (connectSSH calm (vm0 ''missing'') [])) = []) \<and>
   (vm_KeyFile (vm0 ''garbage'') \<noteq> [] \<and>
    readFile calm [] (vm_KeyFile (vm0 ''garbage'')) = Inr ''garbage'' \<and>
    parsePrivateKey calm ''garbage'' = Inl ''ssh: no key found'' \<and>
    fst (Connect calm (vm0 ''garbage'') []) = Inl ''failed to parse private key: ssh: no key found'' \<and>
    observe dialed (snd (Connect calm (vm0 ''garbage'') [])) = []) \<and>
   (vm_KeyFile (vm0 []) = [] \<and>
    observe dialed_auth (snd (connectSSH calm (vm0 []) [])) = [[AuthPassword ''secret'']])"
  using key_replaces_password [of "vm0 ''id_rsa''" calm "[]" "''id_rsa''" "''id_rsa''"]
    key_replaces_password [of "vm0 ''missing''" calm "[]" _ _ "''no such file''"]
    key_replaces_password [of "vm0 ''garbage''" calm "[]" "''garbage''" _ "''ssh: no key found''"]
    key_replaces_password [of "vm0 []" calm "[]"]
  by (simp add: calm_files vm0_def)

end
